theory Spec2Isabelle
  imports Main
begin

section \<open>Batched LU solve: the driver and the host orchestration\<close>

text \<open>
  The development embeds the two functions of \<^verbatim>\<open>src/linearSolverLU_batched.cpp\<close>:
  the driver \<^verbatim>\<open>linearSolverSLU_batched\<close> and the host entry point
  \<^verbatim>\<open>gpuLinearSolverBatched\<close>. Both are sequences of calls into collaborators
  (MAGMA allocators, cuBLAS transfers, CUDA streams, the factorisation and the
  triangular solve), so the model is a state transformer over the local variables of
  the function, with every call the source makes written to a trace, and the value a
  collaborator returns read from an environment.

  Status codes are C \<^verbatim>\<open>int\<close>s that are only compared with zero, negated
  (\<^verbatim>\<open>-(info)\<close> for info in -1, -2, -4, -6) and handed on, so they are modelled as
  \<^typ>\<open>int\<close>.
\<close>

subsection \<open>Pointers, call sites and the trace\<close>

text \<open>The pointer variables of \<^verbatim>\<open>gpuLinearSolverBatched\<close>; \<open>V_h_X\<close> stands for the
  caller's cell \<^verbatim>\<open>*h_X\<close> that the host result allocation writes.\<close>

datatype var =
    V_h_X | V_h_info
  | V_d_A | V_d_B | V_dipiv | V_dinfo_array
  | V_dA_array | V_dB_array | V_dipiv_array

text \<open>A pointer value: never assigned (declared without initialiser), \<^verbatim>\<open>NULL\<close>, or the
  block obtained at the allocation site of a variable.\<close>

datatype ptr = Uninit | Null | Buf var

text \<open>The by-value parameter \<^verbatim>\<open>float **h_X\<close>: the address of the caller's cell, or
  \<^verbatim>\<open>NULL\<close> after line 199.\<close>

datatype outref = Caller_cell | Null_ref

text \<open>The call sites whose return value the source reads.\<close>

datatype site =
    At_malloc var
  | At_set_A | At_set_B
  | At_barrier nat
  | At_decomp | At_solve
  | At_get_info | At_get_X
  | At_sync_status | At_sync_final

datatype event =
    Magma_init
  | Stream_create nat
  | Malloc_cpu var
  | Malloc var
  | Set_matrix_async var nat
  | Set_pointer var var nat
  | Stream_synchronize nat
  | Solver_call int int int int int nat
  | Report_error string int
  | Decomp int int int int nat
  | Factorized_solve int int int int int nat
  | Get_vector_async var var nat
  | Get_matrix_async var outref nat
  | Free_cpu var ptr
  | Free var ptr

text \<open>
  The environment of one call: the code each collaborator returns at each call site,
  the contents of the host status mirror \<^verbatim>\<open>h_info\<close> once the device status array has
  been copied back, and the constant \<^verbatim>\<open>RES_SUCCESS\<close>, which the driver compares the
  factorisation's code with and which comes from a header outside this file.
\<close>

record env =
  ret :: "site \<Rightarrow> int"
  status_mirror :: "nat \<Rightarrow> int"
  RES_SUCCESS :: int

definition ERR_SUCCESS :: int where
  "ERR_SUCCESS = 0"

subsection \<open>The driver \<^verbatim>\<open>linearSolverSLU_batched\<close>\<close>

text \<open>The macro \<^verbatim>\<open>max(a,b)\<close> of line 208.\<close>

definition max_macro :: "int \<Rightarrow> int \<Rightarrow> int" where
  "max_macro a b = (if a > b then a else b)"

text \<open>Lines 296 to 305: \<^verbatim>\<open>info\<close> after the chain of parameter checks.\<close>

definition check_params :: "int \<Rightarrow> int \<Rightarrow> int \<Rightarrow> int \<Rightarrow> int" where
  "check_params n nrhs ldda lddb =
     (let info = 0 in
      if n < 0 then - 1
      else if nrhs < 0 then - 2
      else if ldda < max_macro 1 n then - 4
      else if lddb < max_macro 1 n then - 6
      else info)"

text \<open>
  Lines 291 to 348, with the block under the undefined \<^verbatim>\<open>CHECK_INFO\<close> left out as the
  preprocessor leaves it out. The result is the returned code and the calls made, in
  order. The pointer arguments do not influence the control flow and are not modelled.
\<close>

definition linearSolverSLU_batched ::
  "env \<Rightarrow> int \<Rightarrow> int \<Rightarrow> int \<Rightarrow> int \<Rightarrow> int \<Rightarrow> nat \<Rightarrow> int \<times> event list" where
  "linearSolverSLU_batched e n nrhs ldda lddb batchCount queue =
     (let info = check_params n nrhs ldda lddb in
      if info \<noteq> 0 then (info, [Report_error ''linearSolverSLU_batched'' (- info)])
      else if n = 0 \<or> nrhs = 0 then (info, [])
      else
        let info = ret e At_decomp;
            tr = [Decomp n n ldda batchCount queue] in
        if info \<noteq> RES_SUCCESS e then (info, tr)
        else (ret e At_solve,
              tr @ [Factorized_solve n nrhs ldda lddb batchCount queue]))"

text \<open>The events that touch the device or the provider.\<close>

fun device_event :: "event \<Rightarrow> bool" where
  "device_event (Report_error _ _) = False"
| "device_event _ = True"

fun provider_event :: "event \<Rightarrow> bool" where
  "provider_event (Decomp _ _ _ _ _) = True"
| "provider_event (Factorized_solve _ _ _ _ _ _) = True"
| "provider_event _ = False"

text \<open>The logical arguments of the driver, and the 1-based position of each in the
  signature of lines 291 to 293.\<close>

datatype arg =
    Arg_n | Arg_nrhs | Arg_dA_array | Arg_ldda | Arg_dipiv_array
  | Arg_dB_array | Arg_lddb | Arg_dinfo_array | Arg_batchCount | Arg_queue

fun arg_position :: "arg \<Rightarrow> int" where
  "arg_position Arg_n = 1"
| "arg_position Arg_nrhs = 2"
| "arg_position Arg_dA_array = 3"
| "arg_position Arg_ldda = 4"
| "arg_position Arg_dipiv_array = 5"
| "arg_position Arg_dB_array = 6"
| "arg_position Arg_lddb = 7"
| "arg_position Arg_dinfo_array = 8"
| "arg_position Arg_batchCount = 9"
| "arg_position Arg_queue = 10"

text \<open>The first argument that violates the documented contract of the driver
  (\<^verbatim>\<open>N >= 0\<close>, \<^verbatim>\<open>NRHS >= 0\<close>, \<^verbatim>\<open>LDDA >= max(1,M)\<close>, \<^verbatim>\<open>LDB >= max(1,N)\<close>), in the
  order the driver checks them.\<close>

definition first_invalid :: "int \<Rightarrow> int \<Rightarrow> int \<Rightarrow> int \<Rightarrow> arg option" where
  "first_invalid n nrhs ldda lddb =
     (if n < 0 then Some Arg_n
      else if nrhs < 0 then Some Arg_nrhs
      else if ldda < max_macro 1 n then Some Arg_ldda
      else if lddb < max_macro 1 n then Some Arg_lddb
      else None)"

subsection \<open>The entry point \<^verbatim>\<open>gpuLinearSolverBatched\<close>\<close>

text \<open>
  Modelled from the spec: \<^verbatim>\<open>magma_roundup\<close> is an inline function of the MAGMA
  headers, which are not under src/. The spec has the leading dimension "rounded up to
  a hardware-friendly alignment (e.g., multiple of 32)"; MAGMA computes it as
  \<^verbatim>\<open>((x + y - 1) / y) * y\<close> with C's truncating division.
\<close>

definition c_div :: "int \<Rightarrow> int \<Rightarrow> int" where
  "c_div a b = (if (a < 0) = (b < 0) then \<bar>a\<bar> div \<bar>b\<bar> else - (\<bar>a\<bar> div \<bar>b\<bar>))"

definition magma_roundup :: "int \<Rightarrow> int \<Rightarrow> int" where
  "magma_roundup x y = c_div (x + y - 1) y * y"

text \<open>
  The local state of one activation. \<open>vars\<close> holds the pointer variables
  (\<open>vars s V_h_X\<close> is the caller's cell), \<open>h_X\<close> the by-value parameter,
  \<open>allocated\<close> the blocks obtained and not yet freed, \<open>streams\<close> the streams
  created (the source has no call that destroys one), \<open>trace\<close> the calls made so far.
  \<open>info\<close> is declared without initialiser and is read only after line 148 has
  assigned it; its initial value in the model is never read.
\<close>

record st =
  resCode :: int
  info :: int
  h_X :: outref
  vars :: "var \<Rightarrow> ptr"
  allocated :: "var list"
  streams :: "nat list"
  trace :: "event list"

text \<open>Lines 63 to 72: only the three pointer arrays are initialised to \<^verbatim>\<open>NULL\<close>.\<close>

definition init_st :: st where
  "init_st =
     \<lparr> resCode = ERR_SUCCESS, info = 0, h_X = Caller_cell,
       vars = (\<lambda>v. Uninit)(V_dA_array := Null, V_dB_array := Null, V_dipiv_array := Null),
       allocated = [], streams = [], trace = [] \<rparr>"

definition log :: "event \<Rightarrow> st \<Rightarrow> st" where
  "log ev s = s\<lparr>trace := trace s @ [ev]\<rparr>"

definition magma_init :: "st \<Rightarrow> st" where
  "magma_init s = log Magma_init s"

text \<open>The source ignores what \<^verbatim>\<open>cudaStreamCreate\<close> returns; the model takes the
  stream as created.\<close>

definition cudaStreamCreate :: "nat \<Rightarrow> st \<Rightarrow> st" where
  "cudaStreamCreate i s = (log (Stream_create i) s)\<lparr>streams := streams s @ [i]\<rparr>"

text \<open>
  \<^verbatim>\<open>resCode = magma_Xmalloc(&v, ...)\<close>. On success the variable holds the new block.
  On failure the model leaves \<^verbatim>\<open>NULL\<close> in the variable, as MAGMA's host allocator
  does; no property below depends on the value a failed allocation leaves behind.
\<close>

definition alloc :: "env \<Rightarrow> event \<Rightarrow> var \<Rightarrow> st \<Rightarrow> st" where
  "alloc e ev v s =
     (let rc = ret e (At_malloc v); s1 = log ev s in
      if rc = 0
      then s1\<lparr>resCode := rc, vars := (vars s1)(v := Buf v), allocated := allocated s1 @ [v]\<rparr>
      else s1\<lparr>resCode := rc, vars := (vars s1)(v := Null)\<rparr>)"

text \<open>\<^verbatim>\<open>resCode = f(...)\<close> for a transfer or a synchronisation.\<close>

definition call :: "env \<Rightarrow> site \<Rightarrow> event \<Rightarrow> st \<Rightarrow> st" where
  "call e a ev s = (log ev s)\<lparr>resCode := ret e a\<rparr>"

text \<open>Line 148: the driver runs on \<^verbatim>\<open>cuda_stream[0]\<close> and its code goes to \<open>info\<close>,
  not to \<open>resCode\<close>.\<close>

definition solver_call :: "env \<Rightarrow> int \<Rightarrow> int \<Rightarrow> int \<Rightarrow> int \<Rightarrow> int \<Rightarrow> st \<Rightarrow> st" where
  "solver_call e N nrhs ldda lddb batchCount s =
     (let r = linearSolverSLU_batched e N nrhs ldda lddb batchCount 0 in
      s\<lparr>info := fst r,
        trace := trace s @ Solver_call N nrhs ldda lddb batchCount 0 # snd r\<rparr>)"

text \<open>Lines 169 to 175: the first non-zero entry of \<^verbatim>\<open>h_info[0..batchCount-1]\<close>.\<close>

function scan_info :: "(nat \<Rightarrow> int) \<Rightarrow> int \<Rightarrow> int \<Rightarrow> int option" where
  "scan_info h i batchCount =
     (if i < batchCount
      then (if h (nat i) \<noteq> 0 then Some (h (nat i)) else scan_info h (i + 1) batchCount)
      else None)"
  by pat_completeness auto
termination
  by (relation "measure (\<lambda>(h, i, batchCount). nat (batchCount - i))") auto

declare scan_info.simps [simp del]

definition check_status :: "env \<Rightarrow> int \<Rightarrow> st \<Rightarrow> st" where
  "check_status e batchCount s =
     (case scan_info (status_mirror e) 0 batchCount of
        Some c \<Rightarrow> s\<lparr>resCode := c\<rparr>
      | None \<Rightarrow> s)"

text \<open>Lines 176 to 179.\<close>

definition check_info :: "st \<Rightarrow> st" where
  "check_info s = (if info s \<noteq> 0 then s\<lparr>resCode := info s\<rparr> else s)"

text \<open>
  \<^verbatim>\<open>if (resCode != ERR_SUCCESS) {goto cleanup;}\<close>: once \<open>resCode\<close> is non-zero every
  later statement before the label is skipped.
\<close>

definition guarded :: "(st \<Rightarrow> st) \<Rightarrow> st \<Rightarrow> st" where
  "guarded f s = (if resCode s \<noteq> ERR_SUCCESS then s else f s)"

definition run :: "(st \<Rightarrow> st) list \<Rightarrow> st \<Rightarrow> st" where
  "run fs s = fold guarded fs s"

text \<open>\<^verbatim>\<open>magma_free_cpu\<close> and \<^verbatim>\<open>magma_free\<close> receive the value of the variable, whatever
  it is; a block passed to them stops being allocated.\<close>

definition release :: "var \<Rightarrow> ptr \<Rightarrow> st \<Rightarrow> st" where
  "release v p s =
     (case p of Buf b \<Rightarrow> s\<lparr>allocated := removeAll b (allocated s)\<rparr> | _ \<Rightarrow> s)"

definition magma_free_cpu :: "var \<Rightarrow> st \<Rightarrow> st" where
  "magma_free_cpu v s = release v (vars s v) (log (Free_cpu v (vars s v)) s)"

definition magma_free :: "var \<Rightarrow> st \<Rightarrow> st" where
  "magma_free v s = release v (vars s v) (log (Free v (vars s v)) s)"

text \<open>Lines 185 to 200. Line 199 assigns the parameter \<open>h_X\<close>, not the cell it
  points at.\<close>

definition cleanup :: "st \<Rightarrow> st" where
  "cleanup s0 =
     (let s = magma_free_cpu V_h_info s0;
          s = magma_free V_d_A s;
          s = magma_free V_d_B s;
          s = magma_free V_dipiv s;
          s = magma_free V_dinfo_array s;
          s = magma_free V_dA_array s;
          s = magma_free V_dB_array s;
          s = magma_free V_dipiv_array s in
      if resCode s \<noteq> 0 then s\<lparr>h_X := Null_ref\<rparr> else s)"

text \<open>Lines 85 to 116: initialisation, the three streams and the nine allocations.\<close>

definition acquire_steps :: "env \<Rightarrow> (st \<Rightarrow> st) list" where
  "acquire_steps e =
     [magma_init,
      cudaStreamCreate 0, cudaStreamCreate 1, cudaStreamCreate 2,
      alloc e (Malloc_cpu V_h_X) V_h_X,
      alloc e (Malloc_cpu V_h_info) V_h_info,
      alloc e (Malloc V_d_A) V_d_A,
      alloc e (Malloc V_d_B) V_d_B,
      alloc e (Malloc V_dipiv) V_dipiv,
      alloc e (Malloc V_dinfo_array) V_dinfo_array,
      alloc e (Malloc V_dA_array) V_dA_array,
      alloc e (Malloc V_dB_array) V_dB_array,
      alloc e (Malloc V_dipiv_array) V_dipiv_array]"

text \<open>Lines 118 to 145: the two uploads, the three pointer arrays, the barrier.\<close>

definition upload_steps :: "env \<Rightarrow> (st \<Rightarrow> st) list" where
  "upload_steps e =
     [call e At_set_A (Set_matrix_async V_d_A 0),
      call e At_set_B (Set_matrix_async V_d_B 1),
      log (Set_pointer V_dipiv_array V_dipiv 2),
      log (Set_pointer V_dA_array V_d_A 0),
      log (Set_pointer V_dB_array V_d_B 1),
      call e (At_barrier 0) (Stream_synchronize 0),
      call e (At_barrier 1) (Stream_synchronize 1),
      call e (At_barrier 2) (Stream_synchronize 2)]"

text \<open>Lines 147 to 183. The solution is copied to the address \<open>h_X\<close> itself
  (line 163 passes \<^verbatim>\<open>h_X\<close>, not \<^verbatim>\<open>*h_X\<close>).\<close>

definition compute_steps :: "env \<Rightarrow> int \<Rightarrow> int \<Rightarrow> int \<Rightarrow> int \<Rightarrow> int \<Rightarrow> (st \<Rightarrow> st) list" where
  "compute_steps e N nrhs ldda lddb batchCount =
     [solver_call e N nrhs ldda lddb batchCount,
      call e At_get_info (Get_vector_async V_dinfo_array V_h_info 0),
      (\<lambda>s. call e At_get_X (Get_matrix_async V_d_B (h_X s) 1) s),
      call e At_sync_status (Stream_synchronize 0),
      check_status e batchCount,
      check_info,
      call e At_sync_final (Stream_synchronize 1)]"

text \<open>
  Lines 60 to 203. The result is the returned code and the state at return. The locals
  \<^verbatim>\<open>lda\<close>, \<^verbatim>\<open>ldb\<close>, \<^verbatim>\<open>sizeA\<close> and \<^verbatim>\<open>sizeB\<close> only size the allocations and
  transfers; what those calls return is read from the environment, so the sizes are not
  recorded.
\<close>

definition gpuLinearSolverBatched :: "env \<Rightarrow> int \<Rightarrow> int \<Rightarrow> int \<times> st" where
  "gpuLinearSolverBatched e n batchCount =
     (let N = n;
          nrhs = 1;
          ldda = magma_roundup N 32;
          lddb = ldda;
          s = run (acquire_steps e @ upload_steps e
                   @ compute_steps e N nrhs ldda lddb batchCount) init_st;
          s = cleanup s
      in (resCode s, s))"

subsection \<open>Environments and observations used below\<close>

text \<open>Every collaborator succeeds and every matrix factorises.\<close>

definition ok_env :: env where
  "ok_env = \<lparr> ret = (\<lambda>a. 0), status_mirror = (\<lambda>i. 0), RES_SUCCESS = 0 \<rparr>"

text \<open>As \<open>ok_env\<close>, except that the call at site \<open>a\<close> returns \<open>c\<close>.\<close>

definition failing_at :: "site \<Rightarrow> int \<Rightarrow> env" where
  "failing_at a c = ok_env\<lparr>ret := (ret ok_env)(a := c)\<rparr>"

text \<open>The sites of allocations, transfers and synchronisations, in program order.\<close>

definition resource_sites :: "site list" where
  "resource_sites =
     [At_malloc V_h_X, At_malloc V_h_info, At_malloc V_d_A, At_malloc V_d_B,
      At_malloc V_dipiv, At_malloc V_dinfo_array, At_malloc V_dA_array,
      At_malloc V_dB_array, At_malloc V_dipiv_array,
      At_set_A, At_set_B, At_barrier 0, At_barrier 1, At_barrier 2,
      At_get_info, At_get_X, At_sync_status, At_sync_final]"

definition resources_ok :: "env \<Rightarrow> bool" where
  "resources_ok e = list_all (\<lambda>a. ret e a = 0) resource_sites"

fun is_solver_call :: "event \<Rightarrow> bool" where
  "is_solver_call (Solver_call _ _ _ _ _ _) = True"
| "is_solver_call _ = False"

fun is_free :: "event \<Rightarrow> bool" where
  "is_free (Free_cpu _ _) = True"
| "is_free (Free _ _) = True"
| "is_free _ = False"

fun is_malloc :: "event \<Rightarrow> bool" where
  "is_malloc (Malloc_cpu _) = True"
| "is_malloc (Malloc _) = True"
| "is_malloc _ = False"



text \<open>The calls that enqueue work on stream \<open>k\<close> or wait for it.\<close>

fun on_stream :: "nat \<Rightarrow> event \<Rightarrow> bool" where
  "on_stream k (Set_matrix_async _ j) = (j = k)"
| "on_stream k (Set_pointer _ _ j) = (j = k)"
| "on_stream k (Stream_synchronize j) = (j = k)"
| "on_stream k (Solver_call _ _ _ _ _ j) = (j = k)"
| "on_stream k (Decomp _ _ _ _ j) = (j = k)"
| "on_stream k (Factorized_solve _ _ _ _ _ j) = (j = k)"
| "on_stream k (Get_vector_async _ _ j) = (j = k)"
| "on_stream k (Get_matrix_async _ _ j) = (j = k)"
| "on_stream k _ = False"

text \<open>The calls made before the driver is invoked, and the last three of them.\<close>

definition before_compute :: "event list \<Rightarrow> event list" where
  "before_compute tr = takeWhile (\<lambda>ev. \<not> is_solver_call ev) tr"

definition last3 :: "event list \<Rightarrow> event list" where
  "last3 tr = drop (length tr - 3) tr"

text \<open>The host status mirror holding the codes \<open>cs\<close> (and zero beyond them).\<close>

definition with_status :: "int list \<Rightarrow> env \<Rightarrow> env" where
  "with_status cs e = e\<lparr>status_mirror := (\<lambda>i. if i < length cs then cs ! i else 0)\<rparr>"

text \<open>The checks an input violates, as codes, in the order n, nrhs, ldda, lddb.\<close>

definition violated_checks :: "int \<Rightarrow> int \<Rightarrow> int \<Rightarrow> int \<Rightarrow> int list" where
  "violated_checks n nrhs ldda lddb =
     (if n < 0 then [- 1] else []) @
     (if nrhs < 0 then [- 2] else []) @
     (if ldda < max 1 n then [- 4] else []) @
     (if lddb < max 1 n then [- 6] else [])"

subsection \<open>A process making several calls\<close>





section \<open>Properties of the driver\<close>

lemma max_macro_eq: "max_macro a b = max a b"
  by (simp add: max_macro_def max_def)

lemma check_params_zero_iff:
  "check_params n nrhs ldda lddb = 0 \<longleftrightarrow>
     0 \<le> n \<and> 0 \<le> nrhs \<and> max 1 n \<le> ldda \<and> max 1 n \<le> lddb"
  by (auto simp: check_params_def max_macro_eq Let_def)

lemma check_params_code:
  "check_params n nrhs ldda lddb =
     (if n < 0 then - 1 else if nrhs < 0 then - 2
      else if ldda < max 1 n then - 4 else if lddb < max 1 n then - 6 else 0)"
  by (simp add: check_params_def max_macro_eq Let_def)


text \<open>
  C2. The driver validates before anything else: when a parameter is invalid the code is
  -1 for n < 0, otherwise -2 for nrhs < 0, otherwise -4 for ldda < max(1,n), otherwise -6
  for lddb < max(1,n); the only call the driver makes is the error report (with the
  negated code), so no device call and no provider call is made.
\<close>

theorem validation_fails_fast:
  assumes "n < 0 \<or> nrhs < 0 \<or> ldda < max 1 n \<or> lddb < max 1 n"
  shows "fst (linearSolverSLU_batched e n nrhs ldda lddb bc q) =
           (if n < 0 then - 1 else if nrhs < 0 then - 2
            else if ldda < max 1 n then - 4 else - 6)
       \<and> fst (linearSolverSLU_batched e n nrhs ldda lddb bc q) < 0
       \<and> snd (linearSolverSLU_batched e n nrhs ldda lddb bc q) =
           [Report_error ''linearSolverSLU_batched''
              (- fst (linearSolverSLU_batched e n nrhs ldda lddb bc q))]
       \<and> \<not> list_ex device_event (snd (linearSolverSLU_batched e n nrhs ldda lddb bc q))
       \<and> \<not> list_ex provider_event (snd (linearSolverSLU_batched e n nrhs ldda lddb bc q))"
proof -
  from assms have nz: "check_params n nrhs ldda lddb \<noteq> 0"
    by (auto simp: check_params_zero_iff)
  have r: "linearSolverSLU_batched e n nrhs ldda lddb bc q =
             (check_params n nrhs ldda lddb,
              [Report_error ''linearSolverSLU_batched'' (- check_params n nrhs ldda lddb)])"
    using nz by (simp add: linearSolverSLU_batched_def Let_def)
  from assms show ?thesis
    unfolding r by (auto simp: check_params_code)
qed

theorem validation_fails_fast_witness:
  "fst (linearSolverSLU_batched ok_env 3 1 2 3 5 0) = - 4
   \<and> snd (linearSolverSLU_batched ok_env 3 1 2 3 5 0) =
       [Report_error ''linearSolverSLU_batched'' 4]"
  using validation_fails_fast [of 3 1 2 3 ok_env 5 0] by simp

text \<open>
  C10, as amended. When several parameters are invalid at once the driver returns the
  code of the first violated check in the order n, nrhs, ldda, lddb. With n < 0 and
  nrhs < 0 the result is -1. With nrhs < 0 and lddb < max(1,n) the result is -2 provided
  n is not negative; when n is negative too the result is -1.
\<close>

theorem first_violated_check:
  "(violated_checks n nrhs ldda lddb \<noteq> [] \<longrightarrow>
      fst (linearSolverSLU_batched e n nrhs ldda lddb bc q) = hd (violated_checks n nrhs ldda lddb))
   \<and> (n < 0 \<and> nrhs < 0 \<longrightarrow> fst (linearSolverSLU_batched e n nrhs ldda lddb bc q) = - 1)
   \<and> (0 \<le> n \<and> nrhs < 0 \<and> lddb < max 1 n \<longrightarrow>
        fst (linearSolverSLU_batched e n nrhs ldda lddb bc q) = - 2)"
  by (simp add: linearSolverSLU_batched_def check_params_code violated_checks_def Let_def)

theorem first_violated_check_witness:
  "violated_checks (- 3) (- 1) 0 0 = [- 1, - 2, - 4, - 6]
   \<and> fst (linearSolverSLU_batched ok_env (- 3) (- 1) 0 0 2 0) = - 1
   \<and> violated_checks 3 (- 1) 3 2 = [- 2, - 6]
   \<and> fst (linearSolverSLU_batched ok_env 3 (- 1) 3 2 2 0) = - 2"
  using first_violated_check [of "- 3" "- 1" 0 0 ok_env 2 0]
        first_violated_check [of 3 "- 1" 3 2 ok_env 2 0]
  by (simp add: violated_checks_def)

text \<open>
  C10 as stated fails: with n = -1, nrhs = -1 and lddb = 0 the input has nrhs < 0 and
  lddb < max(1,n), and the result is -1, not -2.
\<close>

theorem first_violated_check_counterexample:
  "(- 1 :: int) < 0 \<and> (0 :: int) < max 1 (- 1)
   \<and> fst (linearSolverSLU_batched ok_env (- 1) (- 1) 1 0 1 0) = - 1
   \<and> fst (linearSolverSLU_batched ok_env (- 1) (- 1) 1 0 1 0) \<noteq> - 2"
  by (simp add: linearSolverSLU_batched_def check_params_code Let_def)

text \<open>
  C3, as amended. Once the parameters pass validation, the driver called with n = 0 or
  nrhs = 0 returns 0 at once, for every batchCount: it makes no call at all, so neither
  the provider nor any output is touched.
\<close>

theorem quick_return_after_validation:
  assumes "0 \<le> n" and "0 \<le> nrhs" and "max 1 n \<le> ldda" and "max 1 n \<le> lddb"
    and "n = 0 \<or> nrhs = 0"
  shows "linearSolverSLU_batched e n nrhs ldda lddb bc q = (0, [])"
proof -
  from assms have "check_params n nrhs ldda lddb = 0"
    by (simp add: check_params_zero_iff)
  with assms(5) show ?thesis
    by (simp add: linearSolverSLU_batched_def Let_def)
qed

theorem quick_return_after_validation_witness:
  "linearSolverSLU_batched ok_env 0 1 1 1 7 0 = (0, [])
   \<and> linearSolverSLU_batched ok_env 4 0 4 4 7 0 = (0, [])"
  using quick_return_after_validation [of 0 1 1 1 ok_env 7 0]
        quick_return_after_validation [of 4 0 4 4 ok_env 7 0]
  by simp



text \<open>
  C7. The driver documents "if INFO = -i, the i-th argument had an illegal value", and
  the claim says so for the leading dimension of B in particular. \<^verbatim>\<open>lddb\<close> is the
  seventh argument of the driver; for an input whose only invalid argument is
  \<^verbatim>\<open>lddb\<close> the driver returns -6, the position of \<^verbatim>\<open>dB_array\<close>.
\<close>

theorem lddb_code_is_not_its_position:
  "first_invalid 1 1 1 0 = Some Arg_lddb
   \<and> arg_position Arg_lddb = 7
   \<and> fst (linearSolverSLU_batched ok_env 1 1 1 0 1 0) = - 6
   \<and> arg_position Arg_dB_array = 6"
  by (simp add: linearSolverSLU_batched_def check_params_code first_invalid_def max_macro_eq Let_def)

section \<open>Properties of the entry point\<close>

subsection \<open>Running the statements on an explicit state\<close>

lemma run_Nil: "run [] s = s"
  by (simp add: run_def)

lemma run_Cons: "run (f # fs) s = run fs (guarded f s)"
  by (simp add: run_def)

lemma run_append: "run (fs @ gs) s = run gs (run fs s)"
  by (simp add: run_def)

lemma run_failed: "resCode s \<noteq> 0 \<Longrightarrow> run fs s = s"
  by (induction fs) (simp_all add: run_Nil run_Cons guarded_def ERR_SUCCESS_def)

lemma guarded_lit:
  "guarded f \<lparr>resCode = r, info = i, h_X = x, vars = v, allocated = a, streams = ss, trace = t\<rparr> =
     (if r \<noteq> 0 then \<lparr>resCode = r, info = i, h_X = x, vars = v, allocated = a, streams = ss, trace = t\<rparr>
      else f \<lparr>resCode = 0, info = i, h_X = x, vars = v, allocated = a, streams = ss, trace = t\<rparr>)"
  by (simp add: guarded_def ERR_SUCCESS_def)

lemma log_lit:
  "log ev \<lparr>resCode = r, info = i, h_X = x, vars = v, allocated = a, streams = ss, trace = t\<rparr> =
     \<lparr>resCode = r, info = i, h_X = x, vars = v, allocated = a, streams = ss, trace = t @ [ev]\<rparr>"
  by (simp add: log_def)

lemma magma_init_lit:
  "magma_init \<lparr>resCode = r, info = i, h_X = x, vars = v, allocated = a, streams = ss, trace = t\<rparr> =
     \<lparr>resCode = r, info = i, h_X = x, vars = v, allocated = a, streams = ss, trace = t @ [Magma_init]\<rparr>"
  by (simp add: magma_init_def log_def)

lemma cudaStreamCreate_lit:
  "cudaStreamCreate k \<lparr>resCode = r, info = i, h_X = x, vars = v, allocated = a, streams = ss, trace = t\<rparr> =
     \<lparr>resCode = r, info = i, h_X = x, vars = v, allocated = a, streams = ss @ [k],
      trace = t @ [Stream_create k]\<rparr>"
  by (simp add: cudaStreamCreate_def log_def)

lemma alloc_lit:
  "alloc e ev w \<lparr>resCode = r, info = i, h_X = x, vars = v, allocated = a, streams = ss, trace = t\<rparr> =
     (if ret e (At_malloc w) = 0
      then \<lparr>resCode = 0, info = i, h_X = x, vars = v(w := Buf w), allocated = a @ [w],
            streams = ss, trace = t @ [ev]\<rparr>
      else \<lparr>resCode = ret e (At_malloc w), info = i, h_X = x, vars = v(w := Null), allocated = a,
            streams = ss, trace = t @ [ev]\<rparr>)"
  by (simp add: alloc_def log_def Let_def)

lemma call_lit:
  "call e b ev \<lparr>resCode = r, info = i, h_X = x, vars = v, allocated = a, streams = ss, trace = t\<rparr> =
     \<lparr>resCode = ret e b, info = i, h_X = x, vars = v, allocated = a, streams = ss, trace = t @ [ev]\<rparr>"
  by (simp add: call_def log_def)

lemma solver_call_lit:
  "solver_call e N nrhs ldda lddb bc
     \<lparr>resCode = r, info = i, h_X = x, vars = v, allocated = a, streams = ss, trace = t\<rparr> =
     \<lparr>resCode = r, info = fst (linearSolverSLU_batched e N nrhs ldda lddb bc 0), h_X = x, vars = v,
      allocated = a, streams = ss,
      trace = t @ Solver_call N nrhs ldda lddb bc 0 # snd (linearSolverSLU_batched e N nrhs ldda lddb bc 0)\<rparr>"
  by (simp add: solver_call_def Let_def)

lemma check_status_lit:
  "check_status e bc \<lparr>resCode = r, info = i, h_X = x, vars = v, allocated = a, streams = ss, trace = t\<rparr> =
     \<lparr>resCode = (case scan_info (status_mirror e) 0 bc of Some c \<Rightarrow> c | None \<Rightarrow> r),
      info = i, h_X = x, vars = v, allocated = a, streams = ss, trace = t\<rparr>"
  by (simp add: check_status_def split: option.splits)

lemma check_info_lit:
  "check_info \<lparr>resCode = r, info = i, h_X = x, vars = v, allocated = a, streams = ss, trace = t\<rparr> =
     \<lparr>resCode = (if i \<noteq> 0 then i else r),
      info = i, h_X = x, vars = v, allocated = a, streams = ss, trace = t\<rparr>"
  by (simp add: check_info_def)

lemma magma_free_lit:
  "magma_free w \<lparr>resCode = r, info = i, h_X = x, vars = v, allocated = a, streams = ss, trace = t\<rparr> =
     \<lparr>resCode = r, info = i, h_X = x, vars = v,
      allocated = (case v w of Buf b \<Rightarrow> removeAll b a | _ \<Rightarrow> a), streams = ss,
      trace = t @ [Free w (v w)]\<rparr>"
  by (simp add: magma_free_def release_def log_def split: ptr.splits)

lemma magma_free_cpu_lit:
  "magma_free_cpu w \<lparr>resCode = r, info = i, h_X = x, vars = v, allocated = a, streams = ss, trace = t\<rparr> =
     \<lparr>resCode = r, info = i, h_X = x, vars = v,
      allocated = (case v w of Buf b \<Rightarrow> removeAll b a | _ \<Rightarrow> a), streams = ss,
      trace = t @ [Free_cpu w (v w)]\<rparr>"
  by (simp add: magma_free_cpu_def release_def log_def split: ptr.splits)

lemma cleanup_lit:
  "cleanup \<lparr>resCode = r, info = i, h_X = x, vars = v, allocated = a, streams = ss, trace = t\<rparr> =
     \<lparr>resCode = r, info = i, h_X = (if r \<noteq> 0 then Null_ref else x), vars = v,
      allocated = allocated (fold magma_free [V_d_A, V_d_B, V_dipiv, V_dinfo_array, V_dA_array, V_dB_array, V_dipiv_array]
         (magma_free_cpu V_h_info \<lparr>resCode = r, info = i, h_X = x, vars = v, allocated = a, streams = ss, trace = t\<rparr>)),
      streams = ss,
      trace = t @ [Free_cpu V_h_info (v V_h_info), Free V_d_A (v V_d_A), Free V_d_B (v V_d_B),
                   Free V_dipiv (v V_dipiv), Free V_dinfo_array (v V_dinfo_array),
                   Free V_dA_array (v V_dA_array), Free V_dB_array (v V_dB_array),
                   Free V_dipiv_array (v V_dipiv_array)]\<rparr>"
  by (simp add: cleanup_def magma_free_lit magma_free_cpu_lit)

lemmas lits = guarded_lit log_lit magma_init_lit cudaStreamCreate_lit alloc_lit call_lit
  solver_call_lit check_status_lit check_info_lit


lemma scan_info_find_from:
  "0 \<le> i \<Longrightarrow> scan_info h i bc = find (\<lambda>c. c \<noteq> 0) (map h [nat i..<nat bc])"
proof (induction h i bc rule: scan_info.induct)
  case (1 h i bc)
  show ?case
  proof (cases "i < bc")
    case True
    with "1.prems" have "[nat i..<nat bc] = nat i # [nat (i + 1)..<nat bc]"
      by (simp add: upt_conv_Cons nat_add_distrib)
    with True "1.prems" "1.IH" show ?thesis
      by (subst scan_info.simps) simp
  next
    case False
    with "1.prems" show ?thesis
      by (subst scan_info.simps) simp
  qed
qed

lemma scan_info_find:
  "scan_info h 0 bc = find (\<lambda>c. c \<noteq> 0) (map h [0..<nat bc])"
  using scan_info_find_from [of 0 h bc] by simp

lemma scan_info_nonzero: "scan_info h 0 bc = Some c \<Longrightarrow> c \<noteq> 0"
  by (auto simp: scan_info_find find_Some_iff)

lemma code_when_resources_ok:
  assumes "resources_ok e"
  shows "fst (gpuLinearSolverBatched e n bc) =
     (case find (\<lambda>c. c \<noteq> 0) (map (status_mirror e) [0..<nat bc]) of
        Some c \<Rightarrow> c
      | None \<Rightarrow> fst (linearSolverSLU_batched e n 1 (magma_roundup n 32) (magma_roundup n 32) bc 0))"
  using assms
  unfolding resources_ok_def resource_sites_def gpuLinearSolverBatched_def acquire_steps_def
    upload_steps_def compute_steps_def init_st_def ERR_SUCCESS_def Let_def
    scan_info_find [symmetric]
  by (auto simp add: run_Cons run_Nil lits cleanup_lit split: option.splits
        dest: scan_info_nonzero simp del: fun_upd_apply)

lemma code_when_resource_fails:
  assumes "\<not> resources_ok e"
  shows "fst (gpuLinearSolverBatched e n bc) \<noteq> 0"
  using assms
  unfolding resources_ok_def resource_sites_def gpuLinearSolverBatched_def acquire_steps_def
    upload_steps_def compute_steps_def init_st_def ERR_SUCCESS_def Let_def
  by (auto simp add: run_Cons run_Nil lits cleanup_lit run_failed split: option.splits
        dest: scan_info_nonzero simp del: fun_upd_apply)


lemma trace_before_compute:
  assumes "list_ex is_solver_call (trace (snd (gpuLinearSolverBatched e n bc)))"
  shows "before_compute (trace (snd (gpuLinearSolverBatched e n bc))) =
    [Magma_init, Stream_create 0, Stream_create 1, Stream_create 2,
     Malloc_cpu V_h_X, Malloc_cpu V_h_info, Malloc V_d_A, Malloc V_d_B,
     Malloc V_dipiv, Malloc V_dinfo_array, Malloc V_dA_array,
     Malloc V_dB_array, Malloc V_dipiv_array, Set_matrix_async V_d_A 0,
     Set_matrix_async V_d_B 1, Set_pointer V_dipiv_array V_dipiv 2,
     Set_pointer V_dA_array V_d_A 0, Set_pointer V_dB_array V_d_B 1,
     Stream_synchronize 0, Stream_synchronize 1, Stream_synchronize 2]"
  using assms
  unfolding gpuLinearSolverBatched_def acquire_steps_def before_compute_def
    upload_steps_def compute_steps_def init_st_def ERR_SUCCESS_def Let_def
  by (simp add: run_Cons run_Nil lits cleanup_lit run_failed
        split: option.splits if_splits del: fun_upd_apply)



subsection \<open>The aggregate code\<close>

text \<open>
  C1, as amended. When every allocation, transfer and synchronisation of the call
  succeeds, the code returned is the first non-zero entry of the status mirror
  \<^verbatim>\<open>h_info[0..batchCount-1]\<close> in index order when there is one, whatever its sign and
  whatever the driver returned, and otherwise the driver's code; so it is 0 exactly when
  every per-matrix code and the driver's code are 0, and one non-zero per-matrix code
  fails the whole call. When an allocation, transfer or synchronisation fails, the code
  returned is not 0.
\<close>

theorem aggregate_code:
  "(resources_ok e \<longrightarrow>
      fst (gpuLinearSolverBatched e n bc) =
        (case find (\<lambda>c. c \<noteq> 0) (map (status_mirror e) [0..<nat bc]) of
           Some c \<Rightarrow> c
         | None \<Rightarrow>
             fst (linearSolverSLU_batched e n 1 (magma_roundup n 32) (magma_roundup n 32) bc 0))
    \<and> (fst (gpuLinearSolverBatched e n bc) = 0 \<longleftrightarrow>
         list_all (\<lambda>c. c = 0) (map (status_mirror e) [0..<nat bc])
         \<and> fst (linearSolverSLU_batched e n 1 (magma_roundup n 32) (magma_roundup n 32) bc 0) = 0))
   \<and> (\<not> resources_ok e \<longrightarrow> fst (gpuLinearSolverBatched e n bc) \<noteq> 0)"
proof -
  have zero_iff: "fst (gpuLinearSolverBatched e n bc) = 0 \<longleftrightarrow>
         list_all (\<lambda>c. c = 0) (map (status_mirror e) [0..<nat bc])
         \<and> fst (linearSolverSLU_batched e n 1 (magma_roundup n 32) (magma_roundup n 32) bc 0) = 0"
    if ok: "resources_ok e"
  proof (cases "find (\<lambda>c. c \<noteq> 0) (map (status_mirror e) [0..<nat bc])")
    case None
    then have "list_all (\<lambda>c. c = 0) (map (status_mirror e) [0..<nat bc])"
      by (auto simp: find_None_iff list_all_iff)
    with None show ?thesis
      by (simp add: code_when_resources_ok [OF ok])
  next
    case (Some c)
    then have "c \<noteq> 0" and "c \<in> set (map (status_mirror e) [0..<nat bc])"
      by (auto simp: find_Some_iff)
    then have "\<not> list_all (\<lambda>c. c = 0) (map (status_mirror e) [0..<nat bc])"
      unfolding list_all_iff by blast
    with Some \<open>c \<noteq> 0\<close> show ?thesis
      by (simp add: code_when_resources_ok [OF ok])
  qed
  show ?thesis
    using code_when_resources_ok [of e n bc] code_when_resource_fails [of e n bc] zero_iff
    by blast
qed

theorem aggregate_code_witness:
  "resources_ok (with_status [0, 2] ok_env)
   \<and> fst (gpuLinearSolverBatched (with_status [0, 2] ok_env) 2 2) = 2
   \<and> \<not> resources_ok (failing_at At_set_B 11)
   \<and> fst (gpuLinearSolverBatched (failing_at At_set_B 11) 2 2) \<noteq> 0"
proof -
  have a: "resources_ok (with_status [0, 2] ok_env)"
    by code_simp
  have b: "\<not> resources_ok (failing_at At_set_B 11)"
    by code_simp
  have c: "find (\<lambda>c. c \<noteq> 0) (map (status_mirror (with_status [0, 2] ok_env)) [0..<nat 2])
             = Some 2"
    by code_simp
  show ?thesis
    using aggregate_code [of "with_status [0, 2] ok_env" 2 2]
          aggregate_code [of "failing_at At_set_B 11" 2 2] a b c
    by simp
qed

text \<open>
  C1 as stated fails in two ways. With one matrix that succeeded and a driver that
  returned 0, a failing last synchronisation makes the call return its code 4. With
  n = 0 the driver reports the parameter error -4, and a positive entry in the status
  mirror is returned instead of it.
\<close>

theorem aggregate_code_counterexample:
  "status_mirror (failing_at At_sync_final 4) 0 = 0
   \<and> fst (linearSolverSLU_batched (failing_at At_sync_final 4) 2 1 32 32 1 0) = 0
   \<and> fst (gpuLinearSolverBatched (failing_at At_sync_final 4) 2 1) = 4
   \<and> fst (linearSolverSLU_batched (with_status [2] ok_env) 0 1 0 0 1 0) = - 4
   \<and> fst (gpuLinearSolverBatched (with_status [2] ok_env) 0 1) = 2"
  by code_simp

text \<open>
  C3 as stated fails. The entry point called with n = 0 (every collaborator succeeding,
  the status mirror all zero) hands the driver ldda = lddb = 0, the driver rejects the
  leading dimension, and the call returns -4 after allocating the result buffer into the
  caller's cell. The driver called with nrhs = 0 and n = -1 returns -1.
\<close>

theorem quick_return_counterexample:
  "magma_roundup 0 32 = 0
   \<and> fst (gpuLinearSolverBatched ok_env 0 1) = - 4
   \<and> vars init_st V_h_X = Uninit
   \<and> vars (snd (gpuLinearSolverBatched ok_env 0 1)) V_h_X = Buf V_h_X
   \<and> fst (linearSolverSLU_batched ok_env (- 1) 0 1 1 1 0) = - 1"
  by code_simp

subsection \<open>Teardown and the output pointer\<close>

text \<open>
  C5. On a failing return the caller-visible output pointer is to be invalidated. When
  the allocation of \<^verbatim>\<open>dA_array\<close> fails (n = 2, batchCount = 1), the call returns the
  allocator's code -113 and line 199 sets the parameter \<open>h_X\<close> to \<^verbatim>\<open>NULL\<close>, while the
  caller's cell still holds the result block, which is still allocated.
\<close>

theorem output_cell_survives_failure:
  "fst (gpuLinearSolverBatched (failing_at (At_malloc V_dA_array) (- 113)) 2 1) = - 113
   \<and> h_X (snd (gpuLinearSolverBatched (failing_at (At_malloc V_dA_array) (- 113)) 2 1)) = Null_ref
   \<and> vars (snd (gpuLinearSolverBatched (failing_at (At_malloc V_dA_array) (- 113)) 2 1)) V_h_X
       = Buf V_h_X
   \<and> allocated (snd (gpuLinearSolverBatched (failing_at (At_malloc V_dA_array) (- 113)) 2 1))
       = [V_h_X]"
  by code_simp

text \<open>
  C6. Every handle not yet allocated is to be null when teardown runs. When the first
  allocation fails (the host result buffer, n = 2, batchCount = 1), the remaining
  allocations are skipped and teardown runs, but \<^verbatim>\<open>h_info\<close>, \<^verbatim>\<open>d_A\<close>, \<^verbatim>\<open>d_B\<close>,
  \<^verbatim>\<open>dipiv\<close> and \<^verbatim>\<open>dinfo_array\<close> were declared without initialiser and are passed to
  the free routines unassigned; only the three pointer arrays are null.
\<close>

theorem teardown_frees_unassigned_pointers:
  "fst (gpuLinearSolverBatched (failing_at (At_malloc V_h_X) (- 112)) 2 1) = - 112
   \<and> filter is_malloc (trace (snd (gpuLinearSolverBatched (failing_at (At_malloc V_h_X) (- 112)) 2 1)))
       = [Malloc_cpu V_h_X]
   \<and> filter is_free (trace (snd (gpuLinearSolverBatched (failing_at (At_malloc V_h_X) (- 112)) 2 1)))
       = [Free_cpu V_h_info Uninit, Free V_d_A Uninit, Free V_d_B Uninit,
          Free V_dipiv Uninit, Free V_dinfo_array Uninit,
          Free V_dA_array Null, Free V_dB_array Null, Free V_dipiv_array Null]"
  by code_simp

subsection \<open>Stream ordering\<close>

text \<open>
  C8. In every execution that reaches the call of the driver, the three calls just
  before it are the synchronisations of streams 0, 1 and 2, and up to that point stream 0
  carries the transfer of A, then the construction of A's pointer array, then its
  synchronisation; stream 1 the same for B; stream 2 the construction of the pivot
  pointer array, then its synchronisation.
\<close>

theorem barrier_before_compute:
  assumes "list_ex is_solver_call (trace (snd (gpuLinearSolverBatched e n bc)))"
  shows "last3 (before_compute (trace (snd (gpuLinearSolverBatched e n bc)))) =
           [Stream_synchronize 0, Stream_synchronize 1, Stream_synchronize 2]
       \<and> filter (on_stream 0) (before_compute (trace (snd (gpuLinearSolverBatched e n bc)))) =
           [Set_matrix_async V_d_A 0, Set_pointer V_dA_array V_d_A 0, Stream_synchronize 0]
       \<and> filter (on_stream 1) (before_compute (trace (snd (gpuLinearSolverBatched e n bc)))) =
           [Set_matrix_async V_d_B 1, Set_pointer V_dB_array V_d_B 1, Stream_synchronize 1]
       \<and> filter (on_stream 2) (before_compute (trace (snd (gpuLinearSolverBatched e n bc)))) =
           [Set_pointer V_dipiv_array V_dipiv 2, Stream_synchronize 2]"
  unfolding trace_before_compute [OF assms] last3_def
  by simp

theorem barrier_before_compute_witness:
  "list_ex is_solver_call (trace (snd (gpuLinearSolverBatched ok_env 2 1)))
   \<and> last3 (before_compute (trace (snd (gpuLinearSolverBatched ok_env 2 1)))) =
       [Stream_synchronize 0, Stream_synchronize 1, Stream_synchronize 2]"
proof -
  have a: "list_ex is_solver_call (trace (snd (gpuLinearSolverBatched ok_env 2 1)))"
    by code_simp
  show ?thesis
    using barrier_before_compute [OF a] a by simp
qed

subsection \<open>What a call leaves behind\<close>



end
